theory Spec2Isabelle
  imports Main
begin

section \<open>The adapter base class of packages/base/src/adapter/IAdapter.ts\<close>

subsection \<open>Enumerations and errors\<close>

text \<open>
  \<^verbatim>\<open>ADAPTER_STATUS\<close> and \<^verbatim>\<open>ADAPTER_CATEGORY\<close> are closed sets of string constants;
  the types \<^verbatim>\<open>ADAPTER_STATUS_TYPE\<close> and \<^verbatim>\<open>ADAPTER_CATEGORY_TYPE\<close> are their values.
\<close>

datatype ADAPTER_STATUS_TYPE =
  NOT_READY | READY | CONNECTING | CONNECTED | DISCONNECTED | ERRORED

datatype ADAPTER_CATEGORY_TYPE = EXTERNAL | IN_APP

text \<open>
  The two error factories the class calls, \<^verbatim>\<open>WalletInitializationError.notReady(msg)\<close>
  and \<^verbatim>\<open>WalletLoginError.connectionError(msg)\<close>, live in the errors module. A thrown
  error is recorded as the factory that made it together with the message handed to it.
  \<^verbatim>\<open>setChainConfig\<close> calls \<^verbatim>\<open>getChainConfig\<close> outside any \<^verbatim>\<open>try\<close>: what that call throws
  leaves \<^verbatim>\<open>setChainConfig\<close> as it is, recorded by its message.
\<close>

datatype wallet_error =
  WalletInitializationError_notReady string
| WalletLoginError_connectionError string
| Error_thrown_by_getChainConfig string

subsection \<open>JavaScript values, objects and the store\<close>

text \<open>
  Property values: the primitives and references to objects in the store. Numbers are
  the integer-valued ones plus \<^verbatim>\<open>NaN\<close>; the fields of a chain configuration are strings.
\<close>

datatype js_value =
  JUndefined | JNull | JBool bool | JNumber int | JNaN | JString string | JObject nat

type_synonym js_object = "string \<rightharpoonup> js_value"

type_synonym heap = "js_object list"

text \<open>JavaScript's ToBoolean, as used by \<^verbatim>\<open>!x\<close>.\<close>

fun truthy :: "js_value \<Rightarrow> bool" where
  "truthy JUndefined = False"
| "truthy JNull = False"
| "truthy (JBool b) = b"
| "truthy (JNumber n) = (n \<noteq> 0)"
| "truthy JNaN = False"
| "truthy (JString s) = (s \<noteq> [])"
| "truthy (JObject p) = True"

text \<open>Reading a property \<^verbatim>\<open>obj.k\<close>: an absent key reads as \<^verbatim>\<open>undefined\<close>.\<close>

definition get_prop :: "js_object \<Rightarrow> string \<Rightarrow> js_value" where
  "get_prop obj k = (case obj k of None \<Rightarrow> JUndefined | Some v \<Rightarrow> v)"

text \<open>
  The operand of a spread \<^verbatim>\<open>...x\<close> inside an object literal contributes its own
  properties; \<^verbatim>\<open>undefined\<close> contributes none.
\<close>

definition spread :: "js_object option \<Rightarrow> js_object" where
  "spread x = (case x of None \<Rightarrow> Map.empty | Some obj \<Rightarrow> obj)"

text \<open>An object literal creates a new object; its address is the next free one.\<close>

definition alloc :: "heap \<Rightarrow> js_object \<Rightarrow> nat \<times> heap" where
  "alloc h obj = (length h, h @ [obj])"

subsection \<open>The class BaseAdapter\<close>

text \<open>
  The fields of the class. \<^verbatim>\<open>chainConfig\<close> is \<^verbatim>\<open>undefined\<close> or a reference to an object
  in the store, \<^verbatim>\<open>provider\<close> is \<^verbatim>\<open>null\<close> or an opaque handle. A subclass adds fields
  of its own: the operations are defined on the extensible record.
\<close>

record BaseAdapter =
  adapterData :: js_value
  chainConfig :: "nat option"
  adapterNamespace :: string
  currentChainNamespace :: string
  type :: ADAPTER_CATEGORY_TYPE
  name :: string
  status :: ADAPTER_STATUS_TYPE
  provider :: "nat option"

text \<open>
  \<^verbatim>\<open>getChainConfig(chainNamespace, chainId)\<close> is imported from the package index and is
  a parameter of the model: a lookup that either throws (\<open>Inl\<close>, with the message of
  the exception) or returns (\<open>Inr\<close>) a default configuration object or \<^verbatim>\<open>undefined\<close>.
\<close>

type_synonym registry = "js_value \<Rightarrow> js_value \<Rightarrow> string + js_object option"

text \<open>
  \<^verbatim>\<open>get chainConfigProxy()\<close>: \<^verbatim>\<open>this.chainConfig ? { ...this.chainConfig } : undefined\<close>.
  The result is the returned reference and the store after the call. A reference the
  adapter holds points into the store (\<open>p < length h\<close>); the theorems about the
  getter state this.
\<close>

definition chainConfigProxy :: "heap \<Rightarrow> 'a BaseAdapter_scheme \<Rightarrow> nat option \<times> heap" where
  "chainConfigProxy h this =
     (case chainConfig this of
        None \<Rightarrow> (None, h)
      | Some p \<Rightarrow> (let (q, h') = alloc h (spread (Some (h ! p))) in (Some q, h')))"

text \<open>
  \<^verbatim>\<open>setChainConfig(customChainConfig)\<close>. The argument is the object the caller passes
  (only read here). The result is the outcome (an error thrown, or a normal return),
  the store and the adapter after the call. An exception of \<^verbatim>\<open>getChainConfig\<close> ends the
  call before the assignment to \<^verbatim>\<open>this.chainConfig\<close>.
\<close>

definition setChainConfig ::
  "registry \<Rightarrow> js_object \<Rightarrow> heap \<Rightarrow> 'a BaseAdapter_scheme
     \<Rightarrow> (wallet_error + unit) \<times> heap \<times> 'a BaseAdapter_scheme" where
  "setChainConfig getChainConfig customChainConfig h this =
     (if status this = READY then (Inr (), h, this)
      else if \<not> truthy (get_prop customChainConfig ''chainNamespace'') then
        (Inl (WalletInitializationError_notReady
                ''ChainNamespace is required while setting chainConfig''), h, this)
      else
        (case getChainConfig (get_prop customChainConfig ''chainNamespace'')
                             (get_prop customChainConfig ''chainId'') of
           Inl msg \<Rightarrow> (Inl (Error_thrown_by_getChainConfig msg), h, this)
         | Inr defaultChainConfig \<Rightarrow>
             (let (p, h') =
                    alloc h (spread defaultChainConfig ++ spread (Some customChainConfig))
              in (Inr (), h', this\<lparr>chainConfig := Some p\<rparr>))))"

text \<open>\<^verbatim>\<open>checkConnectionRequirements()\<close>: three tests on the status, in the source's order.\<close>

definition checkConnectionRequirements :: "'a BaseAdapter_scheme \<Rightarrow> wallet_error + unit" where
  "checkConnectionRequirements this =
     (if status this = CONNECTING then
        Inl (WalletLoginError_connectionError ''Already pending connection'')
      else if status this = CONNECTED then
        Inl (WalletLoginError_connectionError ''Already connected'')
      else if status this \<noteq> READY then
        Inl (WalletLoginError_connectionError ''Wallet adapter is not ready yet'')
      else Inr ())"

text \<open>
  \<^verbatim>\<open>checkInitializationRequirements()\<close>: an early return and three tests; a status that
  matches none of them reaches the end of the body, which returns.
\<close>

definition checkInitializationRequirements :: "'a BaseAdapter_scheme \<Rightarrow> wallet_error + unit" where
  "checkInitializationRequirements this =
     (if status this = NOT_READY then Inr ()
      else if status this = CONNECTING then
        Inl (WalletInitializationError_notReady ''Already pending connection'')
      else if status this = CONNECTED then
        Inl (WalletInitializationError_notReady ''Already connected'')
      else if status this = READY then
        Inl (WalletInitializationError_notReady ''Adapter is already initialized'')
      else Inr ())"

subsection \<open>Observing the stored configuration\<close>

text \<open>
  The configuration the adapter holds: the object its \<^verbatim>\<open>chainConfig\<close> field refers to,
  and what \<^verbatim>\<open>this.chainConfig.k\<close> reads there.
\<close>

definition storedConfig :: "heap \<Rightarrow> 'a BaseAdapter_scheme \<Rightarrow> js_object option" where
  "storedConfig h this =
     (case chainConfig this of
        None \<Rightarrow> None
      | Some p \<Rightarrow> (if p < length h then Some (h ! p) else None))"

definition storedField :: "heap \<Rightarrow> 'a BaseAdapter_scheme \<Rightarrow> string \<Rightarrow> js_value option" where
  "storedField h this k =
     (case storedConfig h this of None \<Rightarrow> None | Some obj \<Rightarrow> Some (get_prop obj k))"

text \<open>
  Two calls in sequence, \<^verbatim>\<open>a.setChainConfig(c1); a.setChainConfig(c2)\<close>: the second
  statement runs only when the first returns.
\<close>

definition setChainConfig_twice ::
  "registry \<Rightarrow> js_object \<Rightarrow> js_object \<Rightarrow> heap \<Rightarrow> 'a BaseAdapter_scheme
     \<Rightarrow> (wallet_error + unit) \<times> heap \<times> 'a BaseAdapter_scheme" where
  "setChainConfig_twice getChainConfig c1 c2 h this =
     (case setChainConfig getChainConfig c1 h this of
        (Inl e, h1, this1) \<Rightarrow> (Inl e, h1, this1)
      | (Inr u, h1, this1) \<Rightarrow> setChainConfig getChainConfig c2 h1 this1)"

subsection \<open>Concrete inputs\<close>

text \<open>
  An adapter as a subclass constructs it (\<^verbatim>\<open>adapterData\<close> is the object at address 0,
  no chain configuration yet), a store holding that object and one configuration
  object, a registry (defaults for the namespaces \<^verbatim>\<open>eip155\<close> and \<^verbatim>\<open>solana\<close>,
  \<^verbatim>\<open>undefined\<close> for \<^verbatim>\<open>other\<close>, an exception for any other first argument), and four
  caller configurations.
\<close>

definition sampleAdapter :: "ADAPTER_STATUS_TYPE \<Rightarrow> BaseAdapter" where
  "sampleAdapter s =
     \<lparr>adapterData = JObject 0, chainConfig = None, adapterNamespace = ''eip155'',
      currentChainNamespace = ''eip155'', type = EXTERNAL, name = ''metamask'',
      status = s, provider = None\<rparr>"

definition sampleHeap :: heap where
  "sampleHeap =
     [Map.empty,
      [''chainNamespace'' \<mapsto> JString ''solana'', ''chainId'' \<mapsto> JString ''0x3'']]"

definition sampleDefaultEip155 :: js_object where
  "sampleDefaultEip155 =
     [''chainNamespace'' \<mapsto> JString ''eip155'', ''chainId'' \<mapsto> JString ''0x1'',
      ''rpcTarget'' \<mapsto> JString ''https://mainnet.example'', ''ticker'' \<mapsto> JString ''ETH'']"

definition sampleRegistry :: registry where
  "sampleRegistry chainNamespace chainId =
     (if chainNamespace = JString ''eip155'' then Inr (Some sampleDefaultEip155)
      else if chainNamespace = JString ''solana'' then
        Inr (Some [''chainNamespace'' \<mapsto> JString ''solana'', ''chainId'' \<mapsto> JString ''0x1'',
                   ''rpcTarget'' \<mapsto> JString ''https://solana.example'',
                   ''ticker'' \<mapsto> JString ''SOL''])
      else if chainNamespace = JString ''other'' then Inr None
      else Inl ''Invalid chain namespace'')"

definition sampleConfig1 :: js_object where
  "sampleConfig1 =
     [''chainNamespace'' \<mapsto> JString ''eip155'',
      ''rpcTarget'' \<mapsto> JString ''https://custom.example'']"

definition sampleConfig2 :: js_object where
  "sampleConfig2 = [''chainNamespace'' \<mapsto> JString ''eip155'', ''ticker'' \<mapsto> JString ''XYZ'']"

definition sampleConfigNoNamespace :: js_object where
  "sampleConfigNoNamespace = [''rpcTarget'' \<mapsto> JString ''https://custom.example'']"

definition sampleConfigNear :: js_object where
  "sampleConfigNear =
     [''chainNamespace'' \<mapsto> JString ''near'',
      ''rpcTarget'' \<mapsto> JString ''https://custom.example'']"

section \<open>The connection guard\<close>

text \<open>
  C1. checkConnectionRequirements throws a login (connection) error for every status
  except READY: with message "Already pending connection" when CONNECTING, "Already
  connected" when CONNECTED, "Wallet adapter is not ready yet" when NOT_READY,
  DISCONNECTED or ERRORED; it returns normally exactly when the status is READY.
\<close>

theorem checkConnectionRequirements_table:
  "checkConnectionRequirements this =
     (case status this of
        CONNECTING \<Rightarrow> Inl (WalletLoginError_connectionError ''Already pending connection'')
      | CONNECTED \<Rightarrow> Inl (WalletLoginError_connectionError ''Already connected'')
      | NOT_READY \<Rightarrow> Inl (WalletLoginError_connectionError ''Wallet adapter is not ready yet'')
      | DISCONNECTED \<Rightarrow> Inl (WalletLoginError_connectionError ''Wallet adapter is not ready yet'')
      | ERRORED \<Rightarrow> Inl (WalletLoginError_connectionError ''Wallet adapter is not ready yet'')
      | READY \<Rightarrow> Inr ())
   \<and> (checkConnectionRequirements this = Inr ()) = (status this = READY)"
  by (cases "status this") (simp_all add: checkConnectionRequirements_def)

section \<open>The initialization guard\<close>

text \<open>
  C2 as stated fails: with status DISCONNECTED the guard returns normally, although the
  status is not NOT_READY.
\<close>

theorem checkInitializationRequirements_disconnected_passes:
  "status (sampleAdapter DISCONNECTED) = DISCONNECTED
   \<and> checkInitializationRequirements (sampleAdapter DISCONNECTED) = Inr ()"
  by (simp add: checkInitializationRequirements_def sampleAdapter_def)

text \<open>
  C2, amended. checkInitializationRequirements throws an initialization error for the
  statuses CONNECTING ("Already pending connection"), CONNECTED ("Already connected")
  and READY ("Adapter is already initialized"), and returns normally for NOT_READY,
  DISCONNECTED and ERRORED.
\<close>

theorem checkInitializationRequirements_table:
  "checkInitializationRequirements this =
     (case status this of
        NOT_READY \<Rightarrow> Inr ()
      | CONNECTING \<Rightarrow> Inl (WalletInitializationError_notReady ''Already pending connection'')
      | CONNECTED \<Rightarrow> Inl (WalletInitializationError_notReady ''Already connected'')
      | READY \<Rightarrow> Inl (WalletInitializationError_notReady ''Adapter is already initialized'')
      | DISCONNECTED \<Rightarrow> Inr ()
      | ERRORED \<Rightarrow> Inr ())"
  by (cases "status this") (simp_all add: checkInitializationRequirements_def)

section \<open>Both guards read the status only\<close>

text \<open>
  C9. Each guard is a total function of the status alone: two adapters with the same
  status, whatever their other fields (and whatever fields their subclasses add), get
  the same outcome from checkConnectionRequirements and the same outcome from
  checkInitializationRequirements; and for every status each guard either returns or
  throws an error of its own kind.
\<close>

theorem guards_depend_on_status_only:
  fixes a :: "'a BaseAdapter_scheme" and b :: "'b BaseAdapter_scheme"
  assumes "status a = status b"
  shows "checkConnectionRequirements a = checkConnectionRequirements b
       \<and> checkInitializationRequirements a = checkInitializationRequirements b
       \<and> (checkConnectionRequirements a = Inr ()
            \<or> (\<exists>m. checkConnectionRequirements a = Inl (WalletLoginError_connectionError m)))
       \<and> (checkInitializationRequirements a = Inr ()
            \<or> (\<exists>m. checkInitializationRequirements a = Inl (WalletInitializationError_notReady m)))"
  using assms
  by (simp add: checkConnectionRequirements_def checkInitializationRequirements_def)

theorem guards_depend_on_status_only_witness:
  "status (sampleAdapter ERRORED) =
     status ((sampleAdapter ERRORED)\<lparr>chainConfig := Some 1, name := ''torus'', provider := Some 7\<rparr>)
   \<and> checkConnectionRequirements (sampleAdapter ERRORED) =
       checkConnectionRequirements
         ((sampleAdapter ERRORED)\<lparr>chainConfig := Some 1, name := ''torus'', provider := Some 7\<rparr>)
   \<and> checkInitializationRequirements (sampleAdapter ERRORED) =
       checkInitializationRequirements
         ((sampleAdapter ERRORED)\<lparr>chainConfig := Some 1, name := ''torus'', provider := Some 7\<rparr>)
   \<and> checkConnectionRequirements (sampleAdapter ERRORED) =
       Inl (WalletLoginError_connectionError ''Wallet adapter is not ready yet'')"
proof -
  have s: "status (sampleAdapter ERRORED) =
     status ((sampleAdapter ERRORED)\<lparr>chainConfig := Some 1, name := ''torus'', provider := Some 7\<rparr>)"
    by (simp add: sampleAdapter_def)
  have c: "checkConnectionRequirements (sampleAdapter ERRORED) =
       Inl (WalletLoginError_connectionError ''Wallet adapter is not ready yet'')"
    by (simp add: checkConnectionRequirements_def sampleAdapter_def)
  from guards_depend_on_status_only [OF s] s c show ?thesis by simp
qed

section \<open>setChainConfig\<close>

subsection \<open>What one call and two calls compute\<close>

lemma setChainConfig_merge:
  assumes "status this \<noteq> READY"
      and "truthy (get_prop c ''chainNamespace'')"
      and "g (get_prop c ''chainNamespace'') (get_prop c ''chainId'') = Inr dflt"
  shows "setChainConfig g c h this =
           (Inr (), h @ [spread dflt ++ c], this\<lparr>chainConfig := Some (length h)\<rparr>)"
  using assms by (simp add: setChainConfig_def alloc_def spread_def)

lemma setChainConfig_lookup_throws:
  assumes "status this \<noteq> READY"
      and "truthy (get_prop c ''chainNamespace'')"
      and "g (get_prop c ''chainNamespace'') (get_prop c ''chainId'') = Inl msg"
  shows "setChainConfig g c h this = (Inl (Error_thrown_by_getChainConfig msg), h, this)"
  using assms by (simp add: setChainConfig_def)

lemma storedConfig_fresh:
  "storedConfig (h @ [obj]) (this\<lparr>chainConfig := Some (length h)\<rparr>) = Some obj"
  by (simp add: storedConfig_def)

lemma storedConfig_fresh2:
  "storedConfig (h @ [obj1, obj2]) (this\<lparr>chainConfig := Some (Suc (length h))\<rparr>) = Some obj2"
  by (simp add: storedConfig_def nth_append)

lemma setChainConfig_twice_merge:
  assumes "status this \<noteq> READY"
      and "truthy (get_prop c1 ''chainNamespace'')"
      and "truthy (get_prop c2 ''chainNamespace'')"
      and "g (get_prop c1 ''chainNamespace'') (get_prop c1 ''chainId'') = Inr dflt1"
      and "g (get_prop c2 ''chainNamespace'') (get_prop c2 ''chainId'') = Inr dflt2"
  shows "setChainConfig_twice g c1 c2 h this =
           (Inr (), h @ [spread dflt1 ++ c1, spread dflt2 ++ c2],
            this\<lparr>chainConfig := Some (Suc (length h))\<rparr>)"
  using assms by (simp add: setChainConfig_twice_def setChainConfig_merge)

lemma sample_truthy:
  "truthy (get_prop sampleConfig1 ''chainNamespace'')"
  "truthy (get_prop sampleConfig2 ''chainNamespace'')"
  by (simp_all add: sampleConfig1_def sampleConfig2_def get_prop_def)

lemma sample_near:
  "truthy (get_prop sampleConfigNear ''chainNamespace'')"
  "sampleRegistry (get_prop sampleConfigNear ''chainNamespace'')
                  (get_prop sampleConfigNear ''chainId'') = Inl ''Invalid chain namespace''"
  by (simp_all add: sampleConfigNear_def sampleRegistry_def get_prop_def)

lemma sample_lookup:
  "sampleRegistry (get_prop sampleConfig1 ''chainNamespace'') (get_prop sampleConfig1 ''chainId'')
     = Inr (Some sampleDefaultEip155)"
  "sampleRegistry (get_prop sampleConfig2 ''chainNamespace'') (get_prop sampleConfig2 ''chainId'')
     = Inr (Some sampleDefaultEip155)"
  by (simp_all add: sampleConfig1_def sampleConfig2_def sampleRegistry_def get_prop_def)

lemma sample_default_fields:
  "get_prop (spread (Some sampleDefaultEip155)) ''ticker'' = JString ''ETH''"
  "get_prop (spread (Some sampleDefaultEip155)) ''chainId'' = JString ''0x1''"
  "get_prop (spread (Some sampleDefaultEip155)) ''rpcTarget'' = JString ''https://mainnet.example''"
  by (simp_all add: sampleDefaultEip155_def spread_def get_prop_def)

lemma sample_status: "status (sampleAdapter s) = s"
  by (simp add: sampleAdapter_def)

subsection \<open>Status READY\<close>

text \<open>
  C3 as stated fails: with status READY the call returns normally, it throws nothing.
\<close>

theorem setChainConfig_ready_no_error:
  "status (sampleAdapter READY) = READY
   \<and> fst (setChainConfig sampleRegistry sampleConfig1 sampleHeap (sampleAdapter READY)) = Inr ()"
  by (simp add: setChainConfig_def sample_status)

text \<open>
  C3, amended. When the adapter status is READY, a call to setChainConfig returns
  normally, whatever the argument: no error is raised.
\<close>

theorem setChainConfig_ready_returns:
  assumes "status this = READY"
  shows "fst (setChainConfig g c h this) = Inr ()"
  using assms by (simp add: setChainConfig_def)

theorem setChainConfig_ready_returns_witness:
  "status (sampleAdapter READY) = READY
   \<and> fst (setChainConfig sampleRegistry sampleConfigNoNamespace sampleHeap (sampleAdapter READY))
       = Inr ()"
  using setChainConfig_ready_returns
          [of "sampleAdapter READY" sampleRegistry sampleConfigNoNamespace sampleHeap]
  by (simp add: sample_status)

text \<open>
  C4. When the status is READY, setChainConfig changes nothing: the store and every
  field of the adapter after the call are those before it, so the stored chain
  configuration is the one stored before, for every argument.
\<close>

theorem setChainConfig_ready_frame:
  assumes "status this = READY"
  shows "snd (setChainConfig g c h this) = (h, this)
       \<and> storedConfig (fst (snd (setChainConfig g c h this)))
                      (snd (snd (setChainConfig g c h this)))
           = storedConfig h this"
  using assms by (simp add: setChainConfig_def)

theorem setChainConfig_ready_frame_witness:
  "status ((sampleAdapter READY)\<lparr>chainConfig := Some 1\<rparr>) = READY
   \<and> snd (setChainConfig sampleRegistry sampleConfig1 sampleHeap
            ((sampleAdapter READY)\<lparr>chainConfig := Some 1\<rparr>))
       = (sampleHeap, (sampleAdapter READY)\<lparr>chainConfig := Some 1\<rparr>)
   \<and> storedField sampleHeap ((sampleAdapter READY)\<lparr>chainConfig := Some 1\<rparr>) ''chainNamespace''
       = Some (JString ''solana'')"
  using setChainConfig_ready_frame
          [of "(sampleAdapter READY)\<lparr>chainConfig := Some 1\<rparr>" sampleRegistry sampleConfig1 sampleHeap]
  by (simp add: sample_status storedField_def storedConfig_def sampleHeap_def get_prop_def
        sampleAdapter_def)

subsection \<open>A configuration without chain namespace\<close>

text \<open>
  C7. For every status other than READY, setChainConfig with a configuration that has
  no chainNamespace throws the initialization error "ChainNamespace is required while
  setting chainConfig", and the store and the adapter (so the stored configuration too)
  are as before the call.
\<close>

theorem setChainConfig_no_namespace:
  assumes "status this \<noteq> READY"
      and "c ''chainNamespace'' = None"
  shows "setChainConfig g c h this =
           (Inl (WalletInitializationError_notReady
                   ''ChainNamespace is required while setting chainConfig''), h, this)"
  using assms by (simp add: setChainConfig_def get_prop_def)

theorem setChainConfig_no_namespace_witness:
  "status (sampleAdapter NOT_READY) \<noteq> READY
   \<and> sampleConfigNoNamespace ''chainNamespace'' = None
   \<and> setChainConfig sampleRegistry sampleConfigNoNamespace sampleHeap (sampleAdapter NOT_READY) =
       (Inl (WalletInitializationError_notReady
               ''ChainNamespace is required while setting chainConfig''),
        sampleHeap, sampleAdapter NOT_READY)"
proof -
  have s: "status (sampleAdapter NOT_READY) \<noteq> READY"
    by (simp add: sample_status)
  have n: "sampleConfigNoNamespace ''chainNamespace'' = None"
    by (simp add: sampleConfigNoNamespace_def)
  from setChainConfig_no_namespace
         [where this = "sampleAdapter NOT_READY" and c = sampleConfigNoNamespace
            and g = sampleRegistry and h = sampleHeap] s n
  show ?thesis by simp
qed

subsection \<open>One call with a chain namespace\<close>

text \<open>
  C6 as stated fails. sampleConfigNear carries a chain namespace and the status is
  NOT_READY, but the registry lookup throws: the call ends with that exception, store
  and adapter are as before, and no configuration is stored.
\<close>

theorem setChainConfig_lookup_exception_stores_nothing:
  "status (sampleAdapter NOT_READY) \<noteq> READY
   \<and> truthy (get_prop sampleConfigNear ''chainNamespace'')
   \<and> setChainConfig sampleRegistry sampleConfigNear sampleHeap (sampleAdapter NOT_READY) =
       (Inl (Error_thrown_by_getChainConfig ''Invalid chain namespace''),
        sampleHeap, sampleAdapter NOT_READY)
   \<and> storedConfig sampleHeap (sampleAdapter NOT_READY) = None"
proof -
  have s: "status (sampleAdapter NOT_READY) \<noteq> READY"
    by (simp add: sample_status)
  have n: "storedConfig sampleHeap (sampleAdapter NOT_READY) = None"
    by (simp add: storedConfig_def sampleAdapter_def)
  from setChainConfig_lookup_throws
         [where g = sampleRegistry and c = sampleConfigNear and h = sampleHeap,
          OF s sample_near]
       s sample_near(1) n
  show ?thesis by simp
qed

text \<open>
  C6, amended. When the status is not READY, the configuration carries a chain namespace
  (a truthy chainNamespace) and the registry lookup for its namespace and chain id
  returns (a default configuration or undefined), one setChainConfig call returns
  normally and stores exactly the merge of that registry default with the caller's
  fields: every field the caller supplies has the caller's value, every field the
  caller omits has the default's value (and reads undefined when the default has none).
\<close>

theorem setChainConfig_stores_merge:
  assumes "status this \<noteq> READY"
      and "truthy (get_prop c ''chainNamespace'')"
      and "g (get_prop c ''chainNamespace'') (get_prop c ''chainId'') = Inr dflt"
      and "setChainConfig g c h this = (r, h', this')"
      and "d = spread dflt"
  shows "r = Inr ()
       \<and> storedConfig h' this' = Some (d ++ c)
       \<and> (\<forall>k v. c k = Some v \<longrightarrow> (d ++ c) k = Some v \<and> storedField h' this' k = Some v)
       \<and> (\<forall>k. c k = None \<longrightarrow> (d ++ c) k = d k \<and> storedField h' this' k = Some (get_prop d k))"
proof -
  from assms have res: "r = Inr ()" "h' = h @ [d ++ c]" "this' = this\<lparr>chainConfig := Some (length h)\<rparr>"
    by (simp_all add: setChainConfig_merge)
  then have sc: "storedConfig h' this' = Some (d ++ c)"
    by (simp add: storedConfig_fresh)
  have over: "(d ++ c) k = Some v" if "c k = Some v" for k v
    using that by (simp add: map_add_def)
  have under: "(d ++ c) k = d k" if "c k = None" for k
    using that by (simp add: map_add_def)
  show ?thesis
    using res(1) sc over under by (simp add: storedField_def get_prop_def)
qed

theorem setChainConfig_stores_merge_witness:
  "status (sampleAdapter NOT_READY) \<noteq> READY
   \<and> truthy (get_prop sampleConfig1 ''chainNamespace'')
   \<and> sampleRegistry (get_prop sampleConfig1 ''chainNamespace'') (get_prop sampleConfig1 ''chainId'')
       = Inr (Some sampleDefaultEip155)
   \<and> fst (setChainConfig sampleRegistry sampleConfig1 sampleHeap (sampleAdapter NOT_READY)) = Inr ()
   \<and> storedField
        (fst (snd (setChainConfig sampleRegistry sampleConfig1 sampleHeap (sampleAdapter NOT_READY))))
        (snd (snd (setChainConfig sampleRegistry sampleConfig1 sampleHeap (sampleAdapter NOT_READY))))
        ''rpcTarget'' = Some (JString ''https://custom.example'')
   \<and> storedField
        (fst (snd (setChainConfig sampleRegistry sampleConfig1 sampleHeap (sampleAdapter NOT_READY))))
        (snd (snd (setChainConfig sampleRegistry sampleConfig1 sampleHeap (sampleAdapter NOT_READY))))
        ''ticker'' = Some (JString ''ETH'')"
proof -
  let ?res = "setChainConfig sampleRegistry sampleConfig1 sampleHeap (sampleAdapter NOT_READY)"
  have s: "status (sampleAdapter NOT_READY) \<noteq> READY"
    by (simp add: sample_status)
  have t: "truthy (get_prop sampleConfig1 ''chainNamespace'')"
    by (rule sample_truthy)
  have e: "?res = (fst ?res, fst (snd ?res), snd (snd ?res))"
    by simp
  have c1: "sampleConfig1 ''rpcTarget'' = Some (JString ''https://custom.example'')"
    by (simp add: sampleConfig1_def)
  have c2: "sampleConfig1 ''ticker'' = None"
    by (simp add: sampleConfig1_def)
  from setChainConfig_stores_merge
         [where this = "sampleAdapter NOT_READY" and c = sampleConfig1 and g = sampleRegistry
            and dflt = "Some sampleDefaultEip155" and h = sampleHeap,
          OF s t sample_lookup(1) e refl]
       s t sample_lookup(1) c1 c2 sample_default_fields(1)
  show ?thesis by simp
qed

subsection \<open>Every status but READY lets the configuration be replaced\<close>

text \<open>
  C10 as stated fails. With status CONNECTED and a configuration stored, setChainConfig
  with sampleConfigNear (which carries a chain namespace) does not succeed: the registry
  lookup throws, the call ends with that exception and the stored configuration is the
  old one.
\<close>

theorem setChainConfig_lookup_exception_keeps_config:
  "status ((sampleAdapter CONNECTED)\<lparr>chainConfig := Some 1\<rparr>) = CONNECTED
   \<and> truthy (get_prop sampleConfigNear ''chainNamespace'')
   \<and> setChainConfig sampleRegistry sampleConfigNear sampleHeap
        ((sampleAdapter CONNECTED)\<lparr>chainConfig := Some 1\<rparr>) =
       (Inl (Error_thrown_by_getChainConfig ''Invalid chain namespace''),
        sampleHeap, (sampleAdapter CONNECTED)\<lparr>chainConfig := Some 1\<rparr>)
   \<and> storedField sampleHeap ((sampleAdapter CONNECTED)\<lparr>chainConfig := Some 1\<rparr>) ''chainNamespace''
       = Some (JString ''solana'')"
proof -
  let ?a = "(sampleAdapter CONNECTED)\<lparr>chainConfig := Some 1\<rparr>"
  have s: "status ?a = CONNECTED"
    by (simp add: sample_status)
  then have s': "status ?a \<noteq> READY"
    by simp
  have before: "storedField sampleHeap ?a ''chainNamespace'' = Some (JString ''solana'')"
    by (simp add: storedField_def storedConfig_def sampleHeap_def sampleAdapter_def get_prop_def)
  from setChainConfig_lookup_throws
         [where g = sampleRegistry and c = sampleConfigNear and h = sampleHeap,
          OF s' sample_near]
       s sample_near(1) before
  show ?thesis by simp
qed

text \<open>
  C10, amended. For every status other than READY (NOT_READY, CONNECTING, CONNECTED,
  DISCONNECTED, ERRORED), setChainConfig with a configuration carrying a chain namespace
  for which the registry lookup returns, returns normally and replaces the stored
  configuration, whatever it was, by the new merge of registry default and supplied
  fields; the status and the other fields stay, and no object already in the store is
  touched. Only the READY status blocks reconfiguration: the configuration is not frozen
  after connection or after an error.
\<close>

theorem setChainConfig_reconfigures_unless_ready:
  assumes "status this \<in> {NOT_READY, CONNECTING, CONNECTED, DISCONNECTED, ERRORED}"
      and "truthy (get_prop c ''chainNamespace'')"
      and "g (get_prop c ''chainNamespace'') (get_prop c ''chainId'') = Inr dflt"
      and "setChainConfig g c h this = (r, h', this')"
  shows "r = Inr ()
       \<and> storedConfig h' this' = Some (spread dflt ++ c)
       \<and> status this' = status this
       \<and> this' = this\<lparr>chainConfig := chainConfig this'\<rparr>
       \<and> take (length h) h' = h"
proof -
  from assms(1) have "status this \<noteq> READY"
    by auto
  with assms(2,3,4) have res: "r = Inr ()"
      "h' = h @ [spread dflt ++ c]"
      "this' = this\<lparr>chainConfig := Some (length h)\<rparr>"
    by (simp_all add: setChainConfig_merge)
  show ?thesis
    unfolding res by (simp add: storedConfig_fresh)
qed

theorem setChainConfig_reconfigures_unless_ready_witness:
  "status ((sampleAdapter CONNECTED)\<lparr>chainConfig := Some 1\<rparr>)
     \<in> {NOT_READY, CONNECTING, CONNECTED, DISCONNECTED, ERRORED}
   \<and> truthy (get_prop sampleConfig2 ''chainNamespace'')
   \<and> sampleRegistry (get_prop sampleConfig2 ''chainNamespace'') (get_prop sampleConfig2 ''chainId'')
       = Inr (Some sampleDefaultEip155)
   \<and> storedField sampleHeap ((sampleAdapter CONNECTED)\<lparr>chainConfig := Some 1\<rparr>) ''chainNamespace''
       = Some (JString ''solana'')
   \<and> fst (setChainConfig sampleRegistry sampleConfig2 sampleHeap
            ((sampleAdapter CONNECTED)\<lparr>chainConfig := Some 1\<rparr>)) = Inr ()
   \<and> storedConfig
        (fst (snd (setChainConfig sampleRegistry sampleConfig2 sampleHeap
                     ((sampleAdapter CONNECTED)\<lparr>chainConfig := Some 1\<rparr>))))
        (snd (snd (setChainConfig sampleRegistry sampleConfig2 sampleHeap
                     ((sampleAdapter CONNECTED)\<lparr>chainConfig := Some 1\<rparr>))))
       = Some (spread (Some sampleDefaultEip155) ++ sampleConfig2)"
proof -
  let ?a = "(sampleAdapter CONNECTED)\<lparr>chainConfig := Some 1\<rparr>"
  let ?res = "setChainConfig sampleRegistry sampleConfig2 sampleHeap ?a"
  have s: "status ?a \<in> {NOT_READY, CONNECTING, CONNECTED, DISCONNECTED, ERRORED}"
    by (simp add: sample_status)
  have t: "truthy (get_prop sampleConfig2 ''chainNamespace'')"
    by (rule sample_truthy)
  have e: "?res = (fst ?res, fst (snd ?res), snd (snd ?res))"
    by simp
  have before: "storedField sampleHeap ?a ''chainNamespace'' = Some (JString ''solana'')"
    by (simp add: storedField_def storedConfig_def sampleHeap_def sampleAdapter_def get_prop_def)
  from setChainConfig_reconfigures_unless_ready
         [where this = ?a and c = sampleConfig2 and g = sampleRegistry
            and dflt = "Some sampleDefaultEip155" and h = sampleHeap,
          OF s t sample_lookup(2) e]
       s t sample_lookup(2) before
  show ?thesis by simp
qed

subsection \<open>Two calls in sequence\<close>

text \<open>
  C5 as stated fails. After setChainConfig with sampleConfig1 the stored rpcTarget is
  the caller's; sampleConfig2 has no rpcTarget; after the second call the stored
  rpcTarget is the registry default's, not the value of the first merge.
\<close>

theorem setChainConfig_twice_resets_to_default:
  "storedField
     (fst (snd (setChainConfig sampleRegistry sampleConfig1 sampleHeap (sampleAdapter NOT_READY))))
     (snd (snd (setChainConfig sampleRegistry sampleConfig1 sampleHeap (sampleAdapter NOT_READY))))
     ''rpcTarget'' = Some (JString ''https://custom.example'')
   \<and> sampleConfig2 ''rpcTarget'' = None
   \<and> storedField
     (fst (snd (setChainConfig_twice sampleRegistry sampleConfig1 sampleConfig2 sampleHeap
                  (sampleAdapter NOT_READY))))
     (snd (snd (setChainConfig_twice sampleRegistry sampleConfig1 sampleConfig2 sampleHeap
                  (sampleAdapter NOT_READY))))
     ''rpcTarget'' = Some (JString ''https://mainnet.example'')"
proof -
  have s: "status (sampleAdapter NOT_READY) \<noteq> READY"
    by (simp add: sample_status)
  have one: "storedField
     (fst (snd (setChainConfig sampleRegistry sampleConfig1 sampleHeap (sampleAdapter NOT_READY))))
     (snd (snd (setChainConfig sampleRegistry sampleConfig1 sampleHeap (sampleAdapter NOT_READY))))
     ''rpcTarget'' = Some (JString ''https://custom.example'')"
    unfolding setChainConfig_merge
                [where g = sampleRegistry and c = sampleConfig1,
                 OF s sample_truthy(1) sample_lookup(1)]
    by (simp add: storedField_def storedConfig_fresh get_prop_def sampleConfig1_def)
  have two: "storedField
     (fst (snd (setChainConfig_twice sampleRegistry sampleConfig1 sampleConfig2 sampleHeap
                  (sampleAdapter NOT_READY))))
     (snd (snd (setChainConfig_twice sampleRegistry sampleConfig1 sampleConfig2 sampleHeap
                  (sampleAdapter NOT_READY))))
     ''rpcTarget'' = Some (JString ''https://mainnet.example'')"
    unfolding setChainConfig_twice_merge
                [where g = sampleRegistry and ?c1.0 = sampleConfig1 and ?c2.0 = sampleConfig2,
                 OF s sample_truthy sample_lookup]
    by (simp add: storedField_def storedConfig_fresh2 get_prop_def sampleConfig2_def
          sampleDefaultEip155_def spread_def map_add_def)
  have "sampleConfig2 ''rpcTarget'' = None"
    by (simp add: sampleConfig2_def)
  with one two show ?thesis by simp
qed

text \<open>
  C5, amended. For two configurations c1 and c2, each carrying a chain namespace for
  which the registry lookup returns, applied by setChainConfig in sequence while the
  status is not READY, the stored configuration is the merge of the registry default for
  c2's namespace and chain id with c2: the fields of c2 take precedence over those of
  c1 (and of the default), and every field absent from c2 has the value of that
  registry default, not the value it had after the first merge.
\<close>

theorem setChainConfig_twice_second_merge:
  assumes "status this \<noteq> READY"
      and "truthy (get_prop c1 ''chainNamespace'')"
      and "truthy (get_prop c2 ''chainNamespace'')"
      and "g (get_prop c1 ''chainNamespace'') (get_prop c1 ''chainId'') = Inr dflt1"
      and "g (get_prop c2 ''chainNamespace'') (get_prop c2 ''chainId'') = Inr dflt2"
      and "setChainConfig_twice g c1 c2 h this = (r, h', this')"
      and "d2 = spread dflt2"
  shows "storedConfig h' this' = Some (d2 ++ c2)
       \<and> (\<forall>k v. c2 k = Some v \<longrightarrow> storedField h' this' k = Some v)
       \<and> (\<forall>k. c2 k = None \<longrightarrow> storedField h' this' k = Some (get_prop d2 k))"
proof -
  from assms have res:
      "h' = h @ [spread dflt1 ++ c1, d2 ++ c2]"
      "this' = this\<lparr>chainConfig := Some (Suc (length h))\<rparr>"
    by (simp_all add: setChainConfig_twice_merge)
  then have sc: "storedConfig h' this' = Some (d2 ++ c2)"
    by (simp add: storedConfig_fresh2)
  show ?thesis
    using sc by (simp add: storedField_def get_prop_def map_add_def)
qed

theorem setChainConfig_twice_second_merge_witness:
  "status (sampleAdapter NOT_READY) \<noteq> READY
   \<and> truthy (get_prop sampleConfig1 ''chainNamespace'')
   \<and> truthy (get_prop sampleConfig2 ''chainNamespace'')
   \<and> sampleRegistry (get_prop sampleConfig1 ''chainNamespace'') (get_prop sampleConfig1 ''chainId'')
       = Inr (Some sampleDefaultEip155)
   \<and> sampleRegistry (get_prop sampleConfig2 ''chainNamespace'') (get_prop sampleConfig2 ''chainId'')
       = Inr (Some sampleDefaultEip155)
   \<and> storedField
        (fst (snd (setChainConfig_twice sampleRegistry sampleConfig1 sampleConfig2 sampleHeap
                     (sampleAdapter NOT_READY))))
        (snd (snd (setChainConfig_twice sampleRegistry sampleConfig1 sampleConfig2 sampleHeap
                     (sampleAdapter NOT_READY))))
        ''ticker'' = Some (JString ''XYZ'')
   \<and> storedField
        (fst (snd (setChainConfig_twice sampleRegistry sampleConfig1 sampleConfig2 sampleHeap
                     (sampleAdapter NOT_READY))))
        (snd (snd (setChainConfig_twice sampleRegistry sampleConfig1 sampleConfig2 sampleHeap
                     (sampleAdapter NOT_READY))))
        ''chainId'' = Some (JString ''0x1'')"
proof -
  let ?res = "setChainConfig_twice sampleRegistry sampleConfig1 sampleConfig2 sampleHeap
                (sampleAdapter NOT_READY)"
  have s: "status (sampleAdapter NOT_READY) \<noteq> READY"
    by (simp add: sample_status)
  have e: "?res = (fst ?res, fst (snd ?res), snd (snd ?res))"
    by simp
  have c1: "sampleConfig2 ''ticker'' = Some (JString ''XYZ'')"
    by (simp add: sampleConfig2_def)
  have c2: "sampleConfig2 ''chainId'' = None"
    by (simp add: sampleConfig2_def)
  from setChainConfig_twice_second_merge
         [where this = "sampleAdapter NOT_READY" and ?c1.0 = sampleConfig1
            and ?c2.0 = sampleConfig2 and g = sampleRegistry
            and ?dflt1.0 = "Some sampleDefaultEip155" and ?dflt2.0 = "Some sampleDefaultEip155"
            and h = sampleHeap,
          OF s sample_truthy sample_lookup e refl]
       s sample_truthy sample_lookup c1 c2 sample_default_fields(2)
  show ?thesis by simp
qed

section \<open>chainConfigProxy\<close>

lemma chainConfigProxy_read:
  assumes "chainConfig this = Some p"
  shows "chainConfigProxy h this = (Some (length h), h @ [h ! p])"
  using assms by (simp add: chainConfigProxy_def alloc_def spread_def)

text \<open>
  C8. With a configuration stored (the adapter's chainConfig refers to an object of the
  store), two consecutive reads of chainConfigProxy return references q1 and q2 to two
  objects with the contents of the stored one, different from each other, from the
  stored object and from every object that existed before; the reads leave the stored
  configuration as it was. Overwriting one returned object leaves the other as it was,
  and whatever is written into the returned objects, the stored configuration keeps
  its contents and the next read returns a further new object with those contents.
\<close>

theorem chainConfigProxy_defensive_copy:
  assumes "chainConfig this = Some p" and "p < length h"
      and "chainConfigProxy h this = (r1, h1)"
      and "chainConfigProxy h1 this = (r2, h2)"
  shows "\<exists>q1 q2. r1 = Some q1 \<and> r2 = Some q2
           \<and> q1 \<noteq> q2 \<and> q1 \<noteq> p \<and> q2 \<noteq> p
           \<and> length h \<le> q1 \<and> length h \<le> q2 \<and> q1 < length h2 \<and> q2 < length h2
           \<and> h2 ! q1 = h ! p \<and> h2 ! q2 = h ! p
           \<and> storedConfig h2 this = storedConfig h this
           \<and> (\<forall>obj. (h2[q1 := obj]) ! q2 = h ! p)
           \<and> (\<forall>obj. (h2[q2 := obj]) ! q1 = h ! p)
           \<and> (\<forall>obj1 obj2.
                 storedConfig (h2[q1 := obj1, q2 := obj2]) this = storedConfig h this
                 \<and> (\<exists>q3 h3. chainConfigProxy (h2[q1 := obj1, q2 := obj2]) this = (Some q3, h3)
                       \<and> q3 \<noteq> q1 \<and> q3 \<noteq> q2 \<and> q3 \<noteq> p \<and> h3 ! q3 = h ! p))"
proof -
  from assms(1,3) have 1: "r1 = Some (length h)" "h1 = h @ [h ! p]"
    by (simp_all add: chainConfigProxy_read)
  from assms(1,2,4) 1 have 2: "r2 = Some (Suc (length h))" "h2 = h @ [h ! p, h ! p]"
    by (simp_all add: chainConfigProxy_read nth_append)
  have len: "length h2 = Suc (Suc (length h))"
    using 2 by simp
  have old: "h2 ! p = h ! p"
    using 2 assms(2) by (simp add: nth_append)
  have a: "h2 ! length h = h ! p"
    using 2 by (simp add: nth_append)
  have b: "h2 ! Suc (length h) = h ! p"
    using 2 by (simp add: nth_append)
  have sc: "storedConfig h2 this = storedConfig h this"
    using assms(1,2) len old by (simp add: storedConfig_def)
  have m1: "(h2[length h := obj]) ! Suc (length h) = h ! p" for obj
    using b by simp
  have m2: "(h2[Suc (length h) := obj]) ! length h = h ! p" for obj
    using a by simp
  have m3: "(h2[length h := obj1, Suc (length h) := obj2]) ! p = h ! p" for obj1 obj2
    using old assms(2) by simp
  have sc3: "storedConfig (h2[length h := obj1, Suc (length h) := obj2]) this
               = storedConfig h this" for obj1 obj2
    using assms(1,2) len m3 by (simp add: storedConfig_def)
  have rd: "\<exists>q3 h3. chainConfigProxy (h2[length h := obj1, Suc (length h) := obj2]) this
                       = (Some q3, h3)
              \<and> q3 \<noteq> length h \<and> q3 \<noteq> Suc (length h) \<and> q3 \<noteq> p \<and> h3 ! q3 = h ! p"
    for obj1 obj2
  proof -
    let ?H = "h2[length h := obj1, Suc (length h) := obj2]"
    have l: "length ?H = Suc (Suc (length h))"
      using len by simp
    have "chainConfigProxy ?H this = (Some (length ?H), ?H @ [?H ! p])"
      using assms(1) by (rule chainConfigProxy_read)
    moreover have "(?H @ [?H ! p]) ! length ?H = h ! p"
      using m3 by (simp only: nth_append_length)
    moreover have "length ?H \<noteq> length h" "length ?H \<noteq> Suc (length h)" "length ?H \<noteq> p"
      using l assms(2) by simp_all
    ultimately show ?thesis by blast
  qed
  show ?thesis
    using 1 2 len a b sc m1 m2 sc3 rd assms(2)
    by (intro exI [of _ "length h"] exI [of _ "Suc (length h)"]) simp
qed

theorem chainConfigProxy_defensive_copy_witness:
  "chainConfig ((sampleAdapter CONNECTED)\<lparr>chainConfig := Some 1\<rparr>) = Some 1
   \<and> 1 < length sampleHeap
   \<and> fst (chainConfigProxy sampleHeap ((sampleAdapter CONNECTED)\<lparr>chainConfig := Some 1\<rparr>)) = Some 2
   \<and> fst (chainConfigProxy
            (snd (chainConfigProxy sampleHeap ((sampleAdapter CONNECTED)\<lparr>chainConfig := Some 1\<rparr>)))
            ((sampleAdapter CONNECTED)\<lparr>chainConfig := Some 1\<rparr>)) = Some 3
   \<and> snd (chainConfigProxy
            (snd (chainConfigProxy sampleHeap ((sampleAdapter CONNECTED)\<lparr>chainConfig := Some 1\<rparr>)))
            ((sampleAdapter CONNECTED)\<lparr>chainConfig := Some 1\<rparr>))
       = sampleHeap @ [sampleHeap ! 1, sampleHeap ! 1]"
proof -
  let ?a = "(sampleAdapter CONNECTED)\<lparr>chainConfig := Some 1\<rparr>"
  let ?one = "chainConfigProxy sampleHeap ?a"
  let ?two = "chainConfigProxy (snd ?one) ?a"
  have c: "chainConfig ?a = Some 1"
    by simp
  have l: "1 < length sampleHeap"
    by (simp add: sampleHeap_def)
  have e1: "?one = (fst ?one, snd ?one)" and e2: "?two = (fst ?two, snd ?two)"
    by simp_all
  have v1: "?one = (Some 2, sampleHeap @ [sampleHeap ! 1])"
    unfolding chainConfigProxy_read [OF c] by (simp add: sampleHeap_def)
  have v2: "?two = (Some 3, sampleHeap @ [sampleHeap ! 1, sampleHeap ! 1])"
    unfolding v1 snd_conv chainConfigProxy_read [OF c] by (simp add: sampleHeap_def)
  from chainConfigProxy_defensive_copy [OF c l e1 e2] c l v1 v2
  show ?thesis by simp
qed

end
